theory Spec2Isabelle
  imports Complex_Main
begin

section \<open>Numbers, errors and containers\<close>

text \<open>
  The simulation kernel of \<^verbatim>\<open>src/simulacion.py\<close> (class \<^verbatim>\<open>SistemaControlMotor\<close>) computes
  with Python and numpy floating-point numbers. They are modelled as exact rationals: every
  literal of the source is a finite decimal, and the properties below are about clamping,
  case selection and algebraic identities. Rounding is not modelled.

  A division by zero depends on the operands. For Python numbers it raises
  \<^verbatim>\<open>ZeroDivisionError\<close>. For a numpy \<^verbatim>\<open>float64\<close> numerator it warns, yields \<^verbatim>\<open>inf\<close>, \<^verbatim>\<open>-inf\<close> or
  \<^verbatim>\<open>nan\<close>, and the program goes on. The attribute \<^verbatim>\<open>tendencia\<close>, the projected speed and the
  corrective action computed from it, and the command before it is stored can hold such a
  value; they have the type \<open>flotante\<close>, with the arithmetic of IEEE 754 on the values that
  are not finite. Every other attribute is a rational: where the source would store
  \<^verbatim>\<open>nan\<close> in one of them, the model stops with \<open>ValorNoFinito\<close>. Signed zeros are not
  modelled: a divisor 0 is the positive zero.
\<close>

datatype error = ZeroDivisionError | ValorNoFinito

definition divide_py :: "rat \<Rightarrow> rat \<Rightarrow> error + rat" where
  "divide_py a b = (if b = 0 then Inl ZeroDivisionError else Inr (a / b))"

datatype flotante = Finito rat | MasInf | MenosInf | NaN

definition dividir_numpy :: "rat \<Rightarrow> rat \<Rightarrow> flotante" where
  "dividir_numpy a b =
     (if b \<noteq> 0 then Finito (a / b)
      else if a > 0 then MasInf
      else if a < 0 then MenosInf
      else NaN)"

fun negativo :: "flotante \<Rightarrow> flotante" where
  "negativo (Finito a) = Finito (- a)"
| "negativo MasInf = MenosInf"
| "negativo MenosInf = MasInf"
| "negativo NaN = NaN"

fun suma :: "flotante \<Rightarrow> flotante \<Rightarrow> flotante" where
  "suma (Finito a) (Finito b) = Finito (a + b)"
| "suma NaN y = NaN"
| "suma x NaN = NaN"
| "suma MasInf MenosInf = NaN"
| "suma MenosInf MasInf = NaN"
| "suma MasInf y = MasInf"
| "suma x MasInf = MasInf"
| "suma MenosInf y = MenosInf"
| "suma x MenosInf = MenosInf"

definition infinito_por :: "bool \<Rightarrow> rat \<Rightarrow> flotante" where
  "infinito_por positivo b =
     (if b = 0 then NaN else if (b > 0) = positivo then MasInf else MenosInf)"

fun producto :: "flotante \<Rightarrow> flotante \<Rightarrow> flotante" where
  "producto (Finito a) (Finito b) = Finito (a * b)"
| "producto NaN y = NaN"
| "producto x NaN = NaN"
| "producto MasInf (Finito b) = infinito_por True b"
| "producto MenosInf (Finito b) = infinito_por False b"
| "producto (Finito a) MasInf = infinito_por True a"
| "producto (Finito a) MenosInf = infinito_por False a"
| "producto MasInf MasInf = MasInf"
| "producto MenosInf MenosInf = MasInf"
| "producto MasInf MenosInf = MenosInf"
| "producto MenosInf MasInf = MenosInf"

text \<open>Comparisons with a finite number; every comparison with \<^verbatim>\<open>nan\<close> is false.\<close>

fun mayor_que :: "flotante \<Rightarrow> rat \<Rightarrow> bool" where
  "mayor_que (Finito a) r = (a > r)"
| "mayor_que MasInf r = True"
| "mayor_que MenosInf r = False"
| "mayor_que NaN r = False"

fun menor_que :: "flotante \<Rightarrow> rat \<Rightarrow> bool" where
  "menor_que (Finito a) r = (a < r)"
| "menor_que MasInf r = False"
| "menor_que MenosInf r = True"
| "menor_que NaN r = False"

text \<open>\<^verbatim>\<open>np.clip(x, a_min, a_max)\<close> is \<^verbatim>\<open>minimum(maximum(x, a_min), a_max)\<close>.\<close>

definition clip :: "rat \<Rightarrow> rat \<Rightarrow> rat \<Rightarrow> rat" where
  "clip x a_min a_max = min (max x a_min) a_max"

text \<open>The same on a \<open>flotante\<close>: the infinities are clamped, \<^verbatim>\<open>nan\<close> passes through.\<close>

fun clip_flotante :: "flotante \<Rightarrow> rat \<Rightarrow> rat \<Rightarrow> flotante" where
  "clip_flotante (Finito a) a_min a_max = Finito (clip a a_min a_max)"
| "clip_flotante MasInf a_min a_max = Finito a_max"
| "clip_flotante MenosInf a_min a_max = Finito (min a_min a_max)"
| "clip_flotante NaN a_min a_max = NaN"

text \<open>
  \<^verbatim>\<open>collections.deque(maxlen=n)\<close>: \<^verbatim>\<open>append\<close> adds on the right and, when the bound is
  exceeded, drops one element on the left.
\<close>

datatype 'a deque = Deque (maxlen: nat) (items: "'a list")

definition deque_append :: "'a \<Rightarrow> 'a deque \<Rightarrow> 'a deque" where
  "deque_append x d =
     (let ys = items d @ [x]
      in Deque (maxlen d) (if maxlen d < length ys then tl ys else ys))"

definition deque_len :: "'a deque \<Rightarrow> nat" where
  "deque_len d = length (items d)"

section \<open>The state of the system\<close>

text \<open>
  One field for each attribute of the object. A Python value carries its type at run time,
  and the unguarded division of the trend estimate depends on it: the last two fields record
  whether the values of \<^verbatim>\<open>velocidad_actual\<close> and \<^verbatim>\<open>velocidad_anterior\<close> are numpy \<^verbatim>\<open>float64\<close>
  (a result of \<^verbatim>\<open>np.clip\<close>) or Python numbers (the literals of the constructor). \<^verbatim>\<open>dt\<close> and
  the configuration are Python numbers throughout.
\<close>

record sistema =
  dt :: rat
  velocidad_nominal :: rat
  rpm_nominal :: rat
  velocidad_min :: rat
  velocidad_max :: rat
  vss_vel_min :: rat
  vss_vel_max :: rat
  vss_volt_min :: rat
  vss_volt_max :: rat
  senal_ctrl_offset :: rat
  rango_offset_min :: rat
  rango_offset_max :: rat
  velocidad_actual :: rat
  rpm_ctrl :: rat
  rpm_reales :: rat
  error_kmh :: rat
  error_volts :: rat
  senal_control_interna :: rat
  senal_control_volts :: rat
  perturbacion :: rat
  retroalimentacion :: rat
  tiempo_transcurrido :: rat
  Kp :: rat
  Ki :: rat
  Kd :: rat
  integral :: rat
  error_anterior_kmh :: rat
  velocidad_anterior :: rat
  tendencia :: flotante
  factor_atenuacion_perturbacion :: rat
  historial_tiempo :: "rat deque"
  historial_entrada :: "rat deque"
  historial_salida :: "rat deque"
  historial_error_kmh :: "rat deque"
  historial_error_volts :: "rat deque"
  historial_control_volts :: "rat deque"
  historial_control_interna :: "rat deque"
  historial_perturbacion :: "rat deque"
  historial_retro :: "rat deque"
  historial_proporcional :: "rat deque"
  historial_integral :: "rat deque"
  historial_derivativo :: "rat deque"
  historial_rpm_ctrl :: "rat deque"
  historial_rpm_reales :: "rat deque"
  historial_en_rango :: "bool deque"
  velocidad_actual_numpy :: bool
  velocidad_anterior_numpy :: bool

section \<open>Unit conversion and the tolerance band\<close>

definition velocidad_a_voltaje :: "sistema \<Rightarrow> rat \<Rightarrow> rat" where
  "velocidad_a_voltaje s velocidad =
     (if vss_vel_max s = vss_vel_min s then 0
      else clip
        (((velocidad - vss_vel_min s) / (vss_vel_max s - vss_vel_min s))
            * (vss_volt_max s - vss_volt_min s) + vss_volt_min s)
        (vss_volt_min s) (vss_volt_max s))"

definition voltaje_a_velocidad :: "sistema \<Rightarrow> rat \<Rightarrow> rat" where
  "voltaje_a_velocidad s voltaje =
     (if vss_volt_max s = vss_volt_min s then vss_vel_min s
      else ((voltaje - vss_volt_min s) / (vss_volt_max s - vss_volt_min s))
             * (vss_vel_max s - vss_vel_min s) + vss_vel_min s)"

definition error_volts_a_kmh :: "sistema \<Rightarrow> rat \<Rightarrow> error + rat" where
  "error_volts_a_kmh s error_volts_in =
     (case divide_py (vss_vel_max s - vss_vel_min s) (vss_volt_max s - vss_volt_min s) of
        Inl e \<Rightarrow> Inl e
      | Inr escala \<Rightarrow> Inr (error_volts_in * escala))"

definition senal_control_a_voltaje :: "sistema \<Rightarrow> rat \<Rightarrow> rat" where
  "senal_control_a_voltaje s senal_interna =
     (let MAX_CTRL_INTERNA = 25.0;
          senal_escalada = clip senal_interna (- MAX_CTRL_INTERNA) MAX_CTRL_INTERNA
                             * (senal_ctrl_offset s / MAX_CTRL_INTERNA);
          voltaje_final = senal_escalada + senal_ctrl_offset s
      in clip voltaje_final (vss_volt_min s) (vss_volt_max s))"

definition get_rango_objetivo :: "sistema \<Rightarrow> rat \<times> rat" where
  "get_rango_objetivo s =
     (velocidad_nominal s + rango_offset_min s, velocidad_nominal s + rango_offset_max s)"

definition esta_en_rango_objetivo :: "sistema \<Rightarrow> bool" where
  "esta_en_rango_objetivo s =
     (let (rango_min, rango_max) = get_rango_objetivo s
      in rango_min \<le> velocidad_actual s \<and> velocidad_actual s \<le> rango_max)"

section \<open>The constructor\<close>

text \<open>
  \<^verbatim>\<open>__init__\<close> takes no argument. It sets every attribute to a literal, creates the fifteen
  history deques with \<^verbatim>\<open>maxlen = 150\<close> and runs a loop of five rounds that appends one
  sample to each of them.
\<close>

definition sistema_atributos :: sistema where
  "sistema_atributos =
     (let max_points = 150 in
      \<lparr> dt = 0.1,
        velocidad_nominal = 80,
        rpm_nominal = 5500,
        velocidad_min = 50,
        velocidad_max = 100,
        vss_vel_min = 50,
        vss_vel_max = 100,
        vss_volt_min = 0,
        vss_volt_max = 5,
        senal_ctrl_offset = 2.5,
        rango_offset_min = - 2,
        rango_offset_max = 1,
        velocidad_actual = 70,
        rpm_ctrl = 4812,
        rpm_reales = 4812,
        error_kmh = 0,
        error_volts = 0,
        senal_control_interna = 0,
        senal_control_volts = 0,
        perturbacion = 0,
        retroalimentacion = 0,
        tiempo_transcurrido = 0,
        Kp = 4.0,
        Ki = 0.2,
        Kd = 0.8,
        integral = 0,
        error_anterior_kmh = 0,
        velocidad_anterior = 70,
        tendencia = Finito 0,
        factor_atenuacion_perturbacion = 0.3,
        historial_tiempo = Deque max_points [],
        historial_entrada = Deque max_points [],
        historial_salida = Deque max_points [],
        historial_error_kmh = Deque max_points [],
        historial_error_volts = Deque max_points [],
        historial_control_volts = Deque max_points [],
        historial_control_interna = Deque max_points [],
        historial_perturbacion = Deque max_points [],
        historial_retro = Deque max_points [],
        historial_proporcional = Deque max_points [],
        historial_integral = Deque max_points [],
        historial_derivativo = Deque max_points [],
        historial_rpm_ctrl = Deque max_points [],
        historial_rpm_reales = Deque max_points [],
        historial_en_rango = Deque max_points [],
        velocidad_actual_numpy = False,
        velocidad_anterior_numpy = False \<rparr>)"

definition inicializar_paso :: "rat \<Rightarrow> sistema \<Rightarrow> sistema" where
  "inicializar_paso i s =
     (let t = i * dt s in
      s\<lparr> historial_tiempo := deque_append t (historial_tiempo s),
         historial_entrada := deque_append (velocidad_nominal s) (historial_entrada s),
         historial_salida := deque_append (velocidad_actual s) (historial_salida s),
         historial_error_kmh := deque_append 0 (historial_error_kmh s),
         historial_error_volts := deque_append 0 (historial_error_volts s),
         historial_control_interna := deque_append 0 (historial_control_interna s),
         historial_control_volts := deque_append (senal_ctrl_offset s) (historial_control_volts s),
         historial_perturbacion := deque_append 0 (historial_perturbacion s),
         historial_retro := deque_append (velocidad_actual s) (historial_retro s),
         historial_proporcional := deque_append 0 (historial_proporcional s),
         historial_integral := deque_append 0 (historial_integral s),
         historial_derivativo := deque_append 0 (historial_derivativo s),
         historial_rpm_ctrl := deque_append (rpm_ctrl s) (historial_rpm_ctrl s),
         historial_rpm_reales := deque_append (rpm_reales s) (historial_rpm_reales s),
         historial_en_rango := deque_append (esta_en_rango_objetivo s) (historial_en_rango s) \<rparr>)"

definition SistemaControlMotor_init :: sistema where
  "SistemaControlMotor_init = fold inicializar_paso [0, 1, 2, 3, 4] sistema_atributos"

section \<open>The controller\<close>

text \<open>
  \<^verbatim>\<open>calcular_control_proporcional_inteligente\<close> is one method whose body the source divides
  into six numbered steps. Each step is a definition here, in the order and with the names
  of the source's comments, and the method composes them. \<^verbatim>\<open>rango_min\<close> and
  \<^verbatim>\<open>rango_max\<close> are the locals computed once at the top of the method.
\<close>

text \<open>
  Step 1, \<^verbatim>\<open>CALCULAR TENDENCIA\<close>: the division by \<^verbatim>\<open>dt\<close> is not guarded in the source. With
  two Python numbers in the numerator a zero \<^verbatim>\<open>dt\<close> raises; as soon as one of them is a
  numpy \<^verbatim>\<open>float64\<close> the quotient is \<^verbatim>\<open>inf\<close>, \<^verbatim>\<open>-inf\<close> or \<^verbatim>\<open>nan\<close> and the method goes on.
\<close>

definition calcular_tendencia :: "sistema \<Rightarrow> error + sistema" where
  "calcular_tendencia s =
     (if 2 \<le> deque_len (historial_salida s)
      then (if velocidad_actual_numpy s \<or> velocidad_anterior_numpy s
            then Inr (s\<lparr>tendencia :=
                          dividir_numpy (velocidad_actual s - velocidad_anterior s) (dt s)\<rparr>)
            else (case divide_py (velocidad_actual s - velocidad_anterior s) (dt s) of
                    Inl e \<Rightarrow> Inl e
                  | Inr t \<Rightarrow> Inr (s\<lparr>tendencia := Finito t\<rparr>)))
      else Inr s)"

text \<open>Step 2, \<^verbatim>\<open>PROPORCIONAL ADAPTATIVO\<close>: the value of \<^verbatim>\<open>P\<close>.\<close>

definition proporcional_adaptativo :: "sistema \<Rightarrow> rat \<Rightarrow> rat \<Rightarrow> rat" where
  "proporcional_adaptativo s rango_max error_kmh_v =
     (let (error_efectivo, Kp_efectivo) =
            (if \<not> esta_en_rango_objetivo s then
               (if velocidad_actual s > rango_max
                then (velocidad_nominal s - velocidad_actual s, Kp s * 1.5)
                else (velocidad_nominal s - velocidad_actual s, Kp s * 1.3))
             else
               (let margen = 0.3 in
                if velocidad_actual s > velocidad_nominal s + margen
                   \<or> velocidad_actual s < velocidad_nominal s - margen
                then (error_kmh_v, Kp s * 0.7)
                else (error_kmh_v, Kp s)))
      in Kp_efectivo * error_efectivo)"

text \<open>Step 3, \<^verbatim>\<open>INTEGRAL MUY LIMITADA\<close>: the update of \<^verbatim>\<open>self.integral\<close>.\<close>

definition integral_limitada :: "rat \<Rightarrow> sistema \<Rightarrow> sistema" where
  "integral_limitada error_kmh_v s =
     (if esta_en_rango_objetivo s \<and> \<bar>error_kmh_v\<bar> < 1.0
      then (let s' = s\<lparr>integral := integral s + error_kmh_v * dt s * 0.02\<rparr>
            in s'\<lparr>integral := clip (integral s') (- 2) 2\<rparr>)
      else s\<lparr>integral := integral s * 0.9\<rparr>)"

text \<open>
  Step 4, \<^verbatim>\<open>DERIVATIVO\<close>: the value of \<^verbatim>\<open>derivativo\<close>. The division is the partial one, so
  that it is the guard \<^verbatim>\<open>dt > 0\<close> of the source, and nothing else, that keeps it defined.
\<close>

definition derivativo_suavizado :: "sistema \<Rightarrow> rat \<Rightarrow> error + rat" where
  "derivativo_suavizado s error_kmh_v =
     (if dt s > 0 then divide_py (error_kmh_v - error_anterior_kmh s) (dt s) else Inr 0)"

text \<open>
  Step 5, \<^verbatim>\<open>ACCION CORRECTIVA INSTANTANEA\<close>: the value of \<^verbatim>\<open>accion_correctiva\<close>, computed
  from \<^verbatim>\<open>tendencia\<close> and so a \<open>flotante\<close>.
\<close>

definition accion_correctiva_instantanea :: "sistema \<Rightarrow> rat \<Rightarrow> rat \<Rightarrow> flotante" where
  "accion_correctiva_instantanea s rango_min rango_max =
     (let velocidad_proyectada =
            suma (Finito (velocidad_actual s)) (producto (tendencia s) (Finito (dt s))) in
      if mayor_que velocidad_proyectada (rango_max + 0.3)
      then (let exceso = suma velocidad_proyectada (negativo (Finito (rango_max + 0.2)))
            in producto (negativo exceso) (Finito 10.0))
      else if menor_que velocidad_proyectada (rango_min - 0.3)
      then (let deficit = suma (Finito (rango_min - 0.2)) (negativo velocidad_proyectada)
            in producto deficit (Finito 6.0))
      else Finito 0)"

text \<open>Step 6, \<^verbatim>\<open>LIMITACION INTELIGENTE\<close>: the clamp of the summed command.\<close>

definition limitacion_inteligente :: "sistema \<Rightarrow> rat \<Rightarrow> rat \<Rightarrow> flotante \<Rightarrow> flotante" where
  "limitacion_inteligente s rango_min rango_max control =
     (if velocidad_actual s > rango_max + 0.2 then clip_flotante control (- 30) 5
      else if velocidad_actual s < rango_min - 0.2 then clip_flotante control (- 5) 20
      else clip_flotante control (- 25) 25)"

text \<open>
  The method: it updates \<^verbatim>\<open>tendencia\<close>, \<^verbatim>\<open>velocidad_anterior\<close>, \<^verbatim>\<open>integral\<close> and
  \<^verbatim>\<open>error_anterior_kmh\<close> and returns \<^verbatim>\<open>(control, P, I, D, accion_correctiva)\<close>.
\<close>

definition calcular_control_proporcional_inteligente ::
  "rat \<Rightarrow> sistema \<Rightarrow> error + (sistema \<times> flotante \<times> rat \<times> rat \<times> rat \<times> flotante)" where
  "calcular_control_proporcional_inteligente error_volts_in s0 =
     (case error_volts_a_kmh s0 error_volts_in of
        Inl e \<Rightarrow> Inl e
      | Inr error_kmh_v \<Rightarrow>
     (let (rango_min, rango_max) = get_rango_objetivo s0 in
      case calcular_tendencia s0 of
        Inl e \<Rightarrow> Inl e
      | Inr s1 \<Rightarrow>
     (let s2 = s1\<lparr>velocidad_anterior := velocidad_actual s1,
                  velocidad_anterior_numpy := velocidad_actual_numpy s1\<rparr>;
          P = proporcional_adaptativo s2 rango_max error_kmh_v;
          s3 = integral_limitada error_kmh_v s2;
          I = Ki s3 * integral s3
      in case derivativo_suavizado s3 error_kmh_v of
           Inl e \<Rightarrow> Inl e
         | Inr derivativo \<Rightarrow>
     (let D = Kd s3 * derivativo;
          control = P + I + D;
          accion_correctiva = accion_correctiva_instantanea s3 rango_min rango_max;
          control1 = suma (Finito control) accion_correctiva;
          control2 = limitacion_inteligente s3 rango_min rango_max control1;
          s4 = s3\<lparr>error_anterior_kmh := error_kmh_v\<rparr>
      in Inr (s4, control2, P, I, D, accion_correctiva)))))"

section \<open>Disturbance shaping and the tick\<close>

definition aplicar_perturbacion_atenuada :: "sistema \<Rightarrow> rat \<Rightarrow> rat" where
  "aplicar_perturbacion_atenuada s perturbacion_in =
     (let perturbacion_limited = clip perturbacion_in (- 100) 200;
          perturbacion_atenuada = perturbacion_limited * factor_atenuacion_perturbacion s
      in perturbacion_atenuada)"

text \<open>
  \<^verbatim>\<open>actualizar_sistema(perturbacion, velocidad_nominal=None)\<close>. The command the controller
  returns is stored in a rational attribute. The speed is computed from \<^verbatim>\<open>rpm_reales\<close>, a
  numpy \<^verbatim>\<open>float64\<close> at that point, so a zero \<^verbatim>\<open>rpm_nominal\<close> does not raise; the source assigns
  the quotient times the target and then its clamp to \<^verbatim>\<open>velocidad_actual\<close>, and the model
  stores the clamped value. The console log written on every fifth sample reads the state
  and changes nothing; it is left out.
\<close>

definition actualizar_sistema :: "rat \<Rightarrow> rat option \<Rightarrow> sistema \<Rightarrow> error + sistema" where
  "actualizar_sistema perturbacion_in velocidad_nominal_in s0 =
     (let s1 = (case velocidad_nominal_in of
                  None \<Rightarrow> s0
                | Some v \<Rightarrow> s0\<lparr>velocidad_nominal := v\<rparr>);
          s2 = s1\<lparr>tiempo_transcurrido := tiempo_transcurrido s1 + dt s1\<rparr>;
          voltaje_nominal = velocidad_a_voltaje s2 (velocidad_nominal s2);
          voltaje_actual = velocidad_a_voltaje s2 (velocidad_actual s2);
          s3 = s2\<lparr>error_volts := voltaje_nominal - voltaje_actual\<rparr>
      in case calcular_control_proporcional_inteligente (error_volts s3) s3 of
           Inl e \<Rightarrow> Inl e
         | Inr (s4, control_f, P, I, D, accion_correctiva) \<Rightarrow>
     (case control_f of
        MasInf \<Rightarrow> Inl ValorNoFinito
      | MenosInf \<Rightarrow> Inl ValorNoFinito
      | NaN \<Rightarrow> Inl ValorNoFinito
      | Finito control \<Rightarrow>
     (let s5 = s4\<lparr>senal_control_interna := control\<rparr>;
          s6 = s5\<lparr>senal_control_volts := senal_control_a_voltaje s5 (senal_control_interna s5)\<rparr>;
          s7 = s6\<lparr>error_kmh := velocidad_nominal s6 - velocidad_actual s6\<rparr>;
          ganancia_base = (if \<not> esta_en_rango_objetivo s7 then 18 * 1.3 else 18);
          rpm_cambio = senal_control_interna s7 * ganancia_base;
          s8 = s7\<lparr>rpm_ctrl := rpm_ctrl s7 + rpm_cambio * dt s7\<rparr>;
          s9 = s8\<lparr>rpm_ctrl := clip (rpm_ctrl s8) 4700 6300\<rparr>;
          perturbacion_atenuada = aplicar_perturbacion_atenuada s9 perturbacion_in;
          s10 = s9\<lparr>rpm_reales := rpm_ctrl s9 + perturbacion_atenuada\<rparr>;
          s11 = s10\<lparr>rpm_reales := clip (rpm_reales s10) 4700 6300\<rparr>;
          velocidad = producto (dividir_numpy (rpm_reales s11) (rpm_nominal s11))
                        (Finito (velocidad_nominal s11))
      in case clip_flotante velocidad (velocidad_min s11) (velocidad_max s11) of
           MasInf \<Rightarrow> Inl ValorNoFinito
         | MenosInf \<Rightarrow> Inl ValorNoFinito
         | NaN \<Rightarrow> Inl ValorNoFinito
         | Finito velocidad_limitada \<Rightarrow>
     (let s13 = s11\<lparr>velocidad_actual := velocidad_limitada, velocidad_actual_numpy := True\<rparr>;
          s14 = s13\<lparr>retroalimentacion := velocidad_actual s13\<rparr>;
          tiempo_actual = (if items (historial_tiempo s14) \<noteq> []
                           then last (items (historial_tiempo s14)) + dt s14 else 0)
      in Inr (s14\<lparr>
           historial_tiempo := deque_append tiempo_actual (historial_tiempo s14),
           historial_entrada := deque_append (velocidad_nominal s14) (historial_entrada s14),
           historial_salida := deque_append (velocidad_actual s14) (historial_salida s14),
           historial_error_kmh := deque_append (error_kmh s14) (historial_error_kmh s14),
           historial_error_volts := deque_append (error_volts s14) (historial_error_volts s14),
           historial_control_interna :=
             deque_append (senal_control_interna s14) (historial_control_interna s14),
           historial_control_volts :=
             deque_append (senal_control_volts s14) (historial_control_volts s14),
           historial_perturbacion := deque_append perturbacion_in (historial_perturbacion s14),
           historial_retro := deque_append (retroalimentacion s14) (historial_retro s14),
           historial_proporcional := deque_append P (historial_proporcional s14),
           historial_integral := deque_append I (historial_integral s14),
           historial_derivativo := deque_append D (historial_derivativo s14),
           historial_rpm_ctrl := deque_append (rpm_ctrl s14) (historial_rpm_ctrl s14),
           historial_rpm_reales := deque_append (rpm_reales s14) (historial_rpm_reales s14),
           historial_en_rango :=
             deque_append (esta_en_rango_objetivo s14) (historial_en_rango s14)\<rparr>)))))"

text \<open>
  A run is a sequence of ticks, each with its disturbance and its optional new target; an
  error ends it, as the exception ends the program.
\<close>

fun ejecutar :: "(rat \<times> rat option) list \<Rightarrow> sistema \<Rightarrow> error + sistema" where
  "ejecutar [] s = Inr s"
| "ejecutar ((p, v) # entradas) s =
     (case actualizar_sistema p v s of
        Inl e \<Rightarrow> Inl e
      | Inr s' \<Rightarrow> ejecutar entradas s')"

section \<open>Observations used by the properties\<close>

text \<open>
  The attributes that \<^verbatim>\<open>__init__\<close> sets and no method assigns afterwards, as far as the
  divisions and the clamps of a tick read them.
\<close>

definition configuracion_nominal :: "sistema \<Rightarrow> bool" where
  "configuracion_nominal s =
     (dt s = 0.1 \<and> rpm_nominal s = 5500 \<and> velocidad_min s = 50 \<and> velocidad_max s = 100
      \<and> vss_vel_min s = 50 \<and> vss_vel_max s = 100 \<and> vss_volt_min s = 0 \<and> vss_volt_max s = 5)"

text \<open>The lengths and the bounds of the fifteen history deques, in the order of their creation.\<close>

definition longitudes :: "sistema \<Rightarrow> nat list" where
  "longitudes s =
     [deque_len (historial_tiempo s), deque_len (historial_entrada s),
      deque_len (historial_salida s), deque_len (historial_error_kmh s),
      deque_len (historial_error_volts s), deque_len (historial_control_volts s),
      deque_len (historial_control_interna s), deque_len (historial_perturbacion s),
      deque_len (historial_retro s), deque_len (historial_proporcional s),
      deque_len (historial_integral s), deque_len (historial_derivativo s),
      deque_len (historial_rpm_ctrl s), deque_len (historial_rpm_reales s),
      deque_len (historial_en_rango s)]"

definition capacidades :: "sistema \<Rightarrow> nat list" where
  "capacidades s =
     [maxlen (historial_tiempo s), maxlen (historial_entrada s),
      maxlen (historial_salida s), maxlen (historial_error_kmh s),
      maxlen (historial_error_volts s), maxlen (historial_control_volts s),
      maxlen (historial_control_interna s), maxlen (historial_perturbacion s),
      maxlen (historial_retro s), maxlen (historial_proporcional s),
      maxlen (historial_integral s), maxlen (historial_derivativo s),
      maxlen (historial_rpm_ctrl s), maxlen (historial_rpm_reales s),
      maxlen (historial_en_rango s)]"

definition longitud_tras_append :: "nat \<Rightarrow> nat \<Rightarrow> nat" where
  "longitud_tras_append m l = (if m < Suc l then l else Suc l)"

text \<open>What holds of the state after \<open>n\<close> ticks of a constructed system.\<close>

definition invariante :: "nat \<Rightarrow> sistema \<Rightarrow> bool" where
  "invariante n s =
     (configuracion_nominal s
      \<and> 50 \<le> velocidad_actual s \<and> velocidad_actual s \<le> 100
      \<and> 4700 \<le> rpm_ctrl s \<and> rpm_ctrl s \<le> 6300
      \<and> 4700 \<le> rpm_reales s \<and> rpm_reales s \<le> 6300
      \<and> \<bar>integral s\<bar> \<le> 2
      \<and> capacidades s = replicate 15 150
      \<and> longitudes s = replicate 15 (min (5 + n) 150))"

text \<open>
  The proportional term in the words of the specification: one gain and one error for each
  of the three positions of \<^verbatim>\<open>velocidad_actual\<close> relative to the tolerance band. It is compared
  below with the value the method returns.
\<close>

definition proporcional_segun_spec :: "sistema \<Rightarrow> rat \<Rightarrow> rat" where
  "proporcional_segun_spec s error_kmh_v =
     (let (rango_min, rango_max) = get_rango_objetivo s in
      if velocidad_actual s > rango_max
      then (Kp s * 1.5) * (velocidad_nominal s - velocidad_actual s)
      else if velocidad_actual s < rango_min
      then (Kp s * 1.3) * (velocidad_nominal s - velocidad_actual s)
      else (if \<bar>velocidad_actual s - velocidad_nominal s\<bar> > 0.3 then Kp s * 0.7 else Kp s)
             * error_kmh_v)"

text \<open>
  The saturation range of the summed command, by zone: above the top edge of the band the
  positive side is tight, below the bottom edge the negative side is tight, and the range is
  symmetric elsewhere.
\<close>

definition rango_saturacion :: "sistema \<Rightarrow> rat \<times> rat" where
  "rango_saturacion s =
     (let (rango_min, rango_max) = get_rango_objetivo s in
      if velocidad_actual s > rango_max + 0.2 then (- 30, 5)
      else if velocidad_actual s < rango_min - 0.2 then (- 5, 20)
      else (- 25, 25))"

section \<open>Properties\<close>

subsection \<open>Clamps and deques\<close>

lemma clip_bounds: "a \<le> b \<Longrightarrow> a \<le> clip x a b \<and> clip x a b \<le> b"
  by (simp add: clip_def)

lemma clip_flotante_finito:
  assumes "a \<le> b" and "x \<noteq> NaN"
  shows "\<exists>c. clip_flotante x a b = Finito c \<and> a \<le> c \<and> c \<le> b"
  using assms by (cases x) (simp_all add: clip_bounds)

lemma deque_len_append:
  "deque_len (deque_append x d) = longitud_tras_append (maxlen d) (deque_len d)"
  by (simp add: deque_append_def deque_len_def Let_def longitud_tras_append_def)

lemma maxlen_append: "maxlen (deque_append x d) = maxlen d"
  by (simp add: deque_append_def Let_def)

lemma longitud_tras_append_min:
  "longitud_tras_append 150 (min (5 + n) 150) = min (5 + Suc n) 150"
  by (simp add: longitud_tras_append_def)

subsection \<open>The controller returns, and what it returns\<close>

lemma integral_limitada_eq:
  "\<exists>i. integral_limitada e s = s\<lparr>integral := i\<rparr> \<and> (\<bar>integral s\<bar> \<le> 2 \<longrightarrow> \<bar>i\<bar> \<le> 2)"
  by (auto simp: integral_limitada_def Let_def clip_def)

lemma calcular_tendencia_eq:
  "calcular_tendencia s =
     (if 2 \<le> deque_len (historial_salida s)
      then (if velocidad_actual_numpy s \<or> velocidad_anterior_numpy s
            then Inr (s\<lparr>tendencia :=
                          dividir_numpy (velocidad_actual s - velocidad_anterior s) (dt s)\<rparr>)
            else if dt s = 0 then Inl ZeroDivisionError
            else Inr (s\<lparr>tendencia := Finito ((velocidad_actual s - velocidad_anterior s) / dt s)\<rparr>))
      else Inr s)"
  by (simp add: calcular_tendencia_def divide_py_def)

lemma calcular_tendencia_Inr:
  assumes "dt s \<noteq> 0 \<or> deque_len (historial_salida s) < 2
           \<or> velocidad_actual_numpy s \<or> velocidad_anterior_numpy s"
  shows "\<exists>t. calcular_tendencia s = Inr (s\<lparr>tendencia := t\<rparr>)
             \<and> (2 \<le> deque_len (historial_salida s) \<longrightarrow> dt s \<noteq> 0 \<longrightarrow>
                  t = Finito ((velocidad_actual s - velocidad_anterior s) / dt s))"
proof (cases "2 \<le> deque_len (historial_salida s)")
  case True
  show ?thesis
  proof (cases "velocidad_actual_numpy s \<or> velocidad_anterior_numpy s")
    case np: True
    with True have "calcular_tendencia s = Inr (s\<lparr>tendencia :=
        dividir_numpy (velocidad_actual s - velocidad_anterior s) (dt s)\<rparr>)"
      by (simp add: calcular_tendencia_eq)
    then show ?thesis
      by (intro exI[of _ "dividir_numpy (velocidad_actual s - velocidad_anterior s) (dt s)"])
         (simp add: dividir_numpy_def)
  next
    case py: False
    with True assms have "calcular_tendencia s = Inr (s\<lparr>tendencia :=
        Finito ((velocidad_actual s - velocidad_anterior s) / dt s)\<rparr>)"
      by (simp add: calcular_tendencia_eq)
    then show ?thesis
      by (intro exI[of _ "Finito ((velocidad_actual s - velocidad_anterior s) / dt s)"]) simp
  qed
next
  case False
  then have "calcular_tendencia s = Inr (s\<lparr>tendencia := tendencia s\<rparr>)"
    by (simp add: calcular_tendencia_eq)
  with False show ?thesis
    by (intro exI[of _ "tendencia s"]) simp
qed

lemma error_volts_a_kmh_Inr:
  "vss_volt_max s \<noteq> vss_volt_min s \<Longrightarrow>
   error_volts_a_kmh s ev = Inr (ev * ((vss_vel_max s - vss_vel_min s) / (vss_volt_max s - vss_volt_min s)))"
  by (simp add: error_volts_a_kmh_def divide_py_def)

lemma derivativo_suavizado_Inr:
  "derivativo_suavizado s e
     = Inr (if dt s > 0 then (e - error_anterior_kmh s) / dt s else 0)"
  by (simp add: derivativo_suavizado_def divide_py_def)

lemma accion_correctiva_no_nan: "accion_correctiva_instantanea s a b \<noteq> NaN"
proof -
  define p where "p = suma (Finito (velocidad_actual s)) (producto (tendencia s) (Finito (dt s)))"
  show ?thesis
    unfolding accion_correctiva_instantanea_def p_def[symmetric] Let_def
    by (cases p) (simp_all add: infinito_por_def)
qed

lemma suma_finito_no_nan: "y \<noteq> NaN \<Longrightarrow> suma (Finito x) y \<noteq> NaN"
  by (cases y) simp_all

lemma calcular_forma:
  assumes "error_volts_a_kmh s ev = Inr e" and "calcular_tendencia s = Inr s1"
  shows "calcular_control_proporcional_inteligente ev s =
     (let rango_min = velocidad_nominal s + rango_offset_min s;
          rango_max = velocidad_nominal s + rango_offset_max s;
          s2 = s1\<lparr>velocidad_anterior := velocidad_actual s1,
                   velocidad_anterior_numpy := velocidad_actual_numpy s1\<rparr>;
          P = proporcional_adaptativo s2 rango_max e;
          s3 = integral_limitada e s2;
          I = Ki s3 * integral s3;
          D = Kd s3 * (if dt s3 > 0 then (e - error_anterior_kmh s3) / dt s3 else 0);
          a = accion_correctiva_instantanea s3 rango_min rango_max
      in Inr (s3\<lparr>error_anterior_kmh := e\<rparr>,
              limitacion_inteligente s3 rango_min rango_max (suma (Finito (P + I + D)) a),
              P, I, D, a))"
  by (simp add: calcular_control_proporcional_inteligente_def assms get_rango_objetivo_def
        Let_def derivativo_suavizado_Inr)

lemma proporcional_adaptativo_eq:
  "proporcional_adaptativo (s\<lparr>tendencia := t, velocidad_anterior := w, velocidad_anterior_numpy := n\<rparr>)
       (velocidad_nominal s + rango_offset_max s) e
     = proporcional_segun_spec s e"
proof -
  have m: "(velocidad_actual s > velocidad_nominal s + 0.3
             \<or> velocidad_actual s < velocidad_nominal s - 0.3)
           \<longleftrightarrow> \<bar>velocidad_actual s - velocidad_nominal s\<bar> > 0.3"
    by linarith
  show ?thesis
    unfolding proporcional_adaptativo_def proporcional_segun_spec_def
      esta_en_rango_objetivo_def get_rango_objetivo_def Let_def
    by (simp add: m del: divide_less_eq_numeral1 less_divide_eq_numeral1)
qed

lemma limitacion_inteligente_eq:
  "limitacion_inteligente
       (s\<lparr>tendencia := t, velocidad_anterior := w, velocidad_anterior_numpy := n, integral := i\<rparr>)
       (velocidad_nominal s + rango_offset_min s) (velocidad_nominal s + rango_offset_max s) x
     = clip_flotante x (fst (rango_saturacion s)) (snd (rango_saturacion s))"
  by (simp add: limitacion_inteligente_def rango_saturacion_def get_rango_objetivo_def)

lemma rango_saturacion_orden: "fst (rango_saturacion s) \<le> snd (rango_saturacion s)"
  by (simp add: rango_saturacion_def get_rango_objetivo_def)

lemma calcular_Inr:
  assumes v: "vss_volt_max s \<noteq> vss_volt_min s"
    and d: "dt s \<noteq> 0 \<or> deque_len (historial_salida s) < 2
           \<or> velocidad_actual_numpy s \<or> velocidad_anterior_numpy s"
  shows "\<exists>t i c P I D a. calcular_control_proporcional_inteligente ev s =
           Inr (s\<lparr>tendencia := t, velocidad_anterior := velocidad_actual s,
                  velocidad_anterior_numpy := velocidad_actual_numpy s, integral := i,
                  error_anterior_kmh := ev * ((vss_vel_max s - vss_vel_min s) / (vss_volt_max s - vss_volt_min s))\<rparr>,
                Finito c, P, I, D, a)
           \<and> Finito c = clip_flotante (suma (Finito (P + I + D)) a)
                          (fst (rango_saturacion s)) (snd (rango_saturacion s))
           \<and> fst (rango_saturacion s) \<le> c \<and> c \<le> snd (rango_saturacion s)
           \<and> P = proporcional_segun_spec s
                   (ev * ((vss_vel_max s - vss_vel_min s) / (vss_volt_max s - vss_volt_min s)))
           \<and> (dt s \<le> 0 \<longrightarrow> D = 0)
           \<and> (\<bar>integral s\<bar> \<le> 2 \<longrightarrow> \<bar>i\<bar> \<le> 2)
           \<and> (2 \<le> deque_len (historial_salida s) \<longrightarrow> dt s \<noteq> 0 \<longrightarrow>
                 t = Finito ((velocidad_actual s - velocidad_anterior s) / dt s))"
proof -
  define e where "e = ev * ((vss_vel_max s - vss_vel_min s) / (vss_volt_max s - vss_volt_min s))"
  have 1: "error_volts_a_kmh s ev = Inr e"
    using v by (simp add: error_volts_a_kmh_Inr e_def)
  from calcular_tendencia_Inr[OF d] obtain t where 2: "calcular_tendencia s = Inr (s\<lparr>tendencia := t\<rparr>)"
     and t: "2 \<le> deque_len (historial_salida s) \<longrightarrow> dt s \<noteq> 0 \<longrightarrow>
               t = Finito ((velocidad_actual s - velocidad_anterior s) / dt s)"
    by blast
  define s2 where "s2 = s\<lparr>tendencia := t, velocidad_anterior := velocidad_actual s,
                          velocidad_anterior_numpy := velocidad_actual_numpy s\<rparr>"
  obtain i where 3: "integral_limitada e s2 = s2\<lparr>integral := i\<rparr>"
    and i: "\<bar>integral s2\<bar> \<le> 2 \<longrightarrow> \<bar>i\<bar> \<le> 2"
    using integral_limitada_eq by blast
  define P where "P = proporcional_segun_spec s e"
  define D where "D = Kd s * (if dt s > 0 then (e - error_anterior_kmh s) / dt s else 0)"
  define a where "a = accion_correctiva_instantanea (s2\<lparr>integral := i\<rparr>)
       (velocidad_nominal s + rango_offset_min s) (velocidad_nominal s + rango_offset_max s)"
  define x where "x = suma (Finito (P + Ki s * i + D)) a"
  have "a \<noteq> NaN" by (simp add: a_def accion_correctiva_no_nan)
  then have "x \<noteq> NaN" by (simp add: x_def suma_finito_no_nan)
  from clip_flotante_finito[OF rango_saturacion_orden this, of s] obtain c where
    c: "clip_flotante x (fst (rango_saturacion s)) (snd (rango_saturacion s)) = Finito c"
    and cb: "fst (rango_saturacion s) \<le> c" "c \<le> snd (rango_saturacion s)" by blast
  have r: "calcular_control_proporcional_inteligente ev s =
             Inr (s2\<lparr>integral := i, error_anterior_kmh := e\<rparr>, Finito c, P, Ki s * i, D, a)"
  proof (cases "dt s > 0")
    case True
    with calcular_forma[OF 1 2] 3[unfolded s2_def]
      c[unfolded x_def P_def D_def a_def s2_def]
    show ?thesis
      by (simp add: Let_def proporcional_adaptativo_eq limitacion_inteligente_eq
            P_def D_def a_def s2_def)
  next
    case False
    with calcular_forma[OF 1 2] 3[unfolded s2_def]
      c[unfolded x_def P_def D_def a_def s2_def]
    show ?thesis
      by (simp add: Let_def proporcional_adaptativo_eq limitacion_inteligente_eq
            P_def D_def a_def s2_def)
  qed
  have d0: "dt s \<le> 0 \<longrightarrow> D = 0" by (simp add: D_def)
  show ?thesis
    apply (rule exI[of _ t], rule exI[of _ i], rule exI[of _ c], rule exI[of _ P],
           rule exI[of _ "Ki s * i"], rule exI[of _ D], rule exI[of _ a])
    using r c cb i t d0
    by (simp add: s2_def e_def P_def x_def)
qed

subsection \<open>One tick, and runs of a constructed system\<close>

lemma actualizar_paso:
  assumes cfg: "configuracion_nominal s"
  shows "\<exists>s'. actualizar_sistema p v s = Inr s'
           \<and> configuracion_nominal s'
           \<and> 50 \<le> velocidad_actual s' \<and> velocidad_actual s' \<le> 100
           \<and> 4700 \<le> rpm_ctrl s' \<and> rpm_ctrl s' \<le> 6300
           \<and> 4700 \<le> rpm_reales s' \<and> rpm_reales s' \<le> 6300
           \<and> (\<bar>integral s\<bar> \<le> 2 \<longrightarrow> \<bar>integral s'\<bar> \<le> 2)
           \<and> (2 \<le> deque_len (historial_salida s) \<longrightarrow>
                 tendencia s' = Finito ((velocidad_actual s - velocidad_anterior s) / dt s))
           \<and> velocidad_actual_numpy s'
           \<and> capacidades s' = capacidades s
           \<and> longitudes s' = map2 longitud_tras_append (capacidades s) (longitudes s)"
proof -
  define s1 where "s1 = (case v of None \<Rightarrow> s | Some x \<Rightarrow> s\<lparr>velocidad_nominal := x\<rparr>)"
  have "\<exists>x. s1 = s\<lparr>velocidad_nominal := x\<rparr>"
    by (cases v) (auto simp: s1_def intro: exI[of _ "velocidad_nominal s"])
  then obtain x where s1x: "s1 = s\<lparr>velocidad_nominal := x\<rparr>" by blast
  define s3 where "s3 = s\<lparr>velocidad_nominal := x, tiempo_transcurrido := tiempo_transcurrido s + dt s,
      error_volts := velocidad_a_voltaje (s\<lparr>velocidad_nominal := x\<rparr>) x
                      - velocidad_a_voltaje (s\<lparr>velocidad_nominal := x\<rparr>) (velocidad_actual s)\<rparr>"
  have pre: "vss_volt_max s3 \<noteq> vss_volt_min s3"
    "dt s3 \<noteq> 0 \<or> deque_len (historial_salida s3) < 2
       \<or> velocidad_actual_numpy s3 \<or> velocidad_anterior_numpy s3"
    using cfg by (simp_all add: configuracion_nominal_def s3_def)
  have dt3: "dt s3 \<noteq> 0" using cfg by (simp add: configuracion_nominal_def s3_def)
  from calcular_Inr[OF pre, of "error_volts s3"]
  obtain t i c P I D a where calc: "calcular_control_proporcional_inteligente (error_volts s3) s3 =
           Inr (s3\<lparr>tendencia := t, velocidad_anterior := velocidad_actual s3,
                   velocidad_anterior_numpy := velocidad_actual_numpy s3, integral := i,
                   error_anterior_kmh := error_volts s3 * ((vss_vel_max s3 - vss_vel_min s3) / (vss_volt_max s3 - vss_volt_min s3))\<rparr>,
                Finito c, P, I, D, a)"
    and i: "\<bar>integral s3\<bar> \<le> 2 \<longrightarrow> \<bar>i\<bar> \<le> 2"
    and t: "2 \<le> deque_len (historial_salida s3) \<longrightarrow> dt s3 \<noteq> 0 \<longrightarrow>
              t = Finito ((velocidad_actual s3 - velocidad_anterior s3) / dt s3)"
    by blast
  have velfix: "velocidad_a_voltaje (s\<lparr>velocidad_nominal := x, tiempo_transcurrido := tt\<rparr>)
                  = velocidad_a_voltaje (s\<lparr>velocidad_nominal := x\<rparr>)" for tt
    by (simp add: velocidad_a_voltaje_def fun_eq_iff)
  show ?thesis
    unfolding actualizar_sistema_def s1_def[symmetric]
    unfolding s1x
    using i t dt3 cfg calc[unfolded s3_def]
    by (simp add: Let_def velfix dividir_numpy_def configuracion_nominal_def clip_bounds s3_def
          longitudes_def capacidades_def deque_len_append maxlen_append)
qed

lemmas init_defs = SistemaControlMotor_init_def sistema_atributos_def inicializar_paso_def
  deque_append_def esta_en_rango_objetivo_def get_rango_objetivo_def Let_def

lemma invariante_init: "invariante 0 SistemaControlMotor_init"
  by (simp add: invariante_def configuracion_nominal_def longitudes_def capacidades_def
        deque_len_def init_defs eval_nat_numeral)

lemma invariante_paso:
  assumes "invariante n s"
  shows "\<exists>s'. actualizar_sistema p v s = Inr s' \<and> invariante (Suc n) s'
           \<and> tendencia s' = Finito ((velocidad_actual s - velocidad_anterior s) / dt s)
           \<and> velocidad_actual_numpy s'"
proof -
  from assms have cfg: "configuracion_nominal s" and int: "\<bar>integral s\<bar> \<le> 2"
    and cap: "capacidades s = replicate 15 150"
    and lon: "longitudes s = replicate 15 (min (5 + n) 150)"
    by (simp_all add: invariante_def)
  from lon have "deque_len (historial_salida s) = min (5 + n) 150"
    by (simp add: longitudes_def eval_nat_numeral)
  then have dos: "2 \<le> deque_len (historial_salida s)" by simp
  have m: "map2 longitud_tras_append (replicate 15 150) (replicate 15 (min (5 + n) 150))
             = replicate 15 (min (5 + Suc n) 150)"
    by (simp add: zip_replicate longitud_tras_append_min)
  from actualizar_paso[OF cfg, of p v] obtain s' where
    "actualizar_sistema p v s = Inr s'" "configuracion_nominal s'"
    "50 \<le> velocidad_actual s'" "velocidad_actual s' \<le> 100"
    "4700 \<le> rpm_ctrl s'" "rpm_ctrl s' \<le> 6300"
    "4700 \<le> rpm_reales s'" "rpm_reales s' \<le> 6300"
    "\<bar>integral s\<bar> \<le> 2 \<longrightarrow> \<bar>integral s'\<bar> \<le> 2"
    "2 \<le> deque_len (historial_salida s) \<longrightarrow>
                 tendencia s' = Finito ((velocidad_actual s - velocidad_anterior s) / dt s)"
    "velocidad_actual_numpy s'"
    "capacidades s' = capacidades s"
    "longitudes s' = map2 longitud_tras_append (capacidades s) (longitudes s)"
    by blast
  with int dos cap lon m show ?thesis
    by (simp add: invariante_def)
qed

lemma invariante_ejecutar:
  "invariante n s \<Longrightarrow> \<exists>s'. ejecutar entradas s = Inr s' \<and> invariante (n + length entradas) s'"
proof (induction entradas arbitrary: n s)
  case Nil
  then show ?case by simp
next
  case (Cons e entradas)
  obtain p v where e: "e = (p, v)" by (cases e)
  from invariante_paso[OF Cons.prems, of p v] obtain s1 where
    1: "actualizar_sistema p v s = Inr s1" and 2: "invariante (Suc n) s1" by blast
  from Cons.IH[OF 2] obtain s' where
    "ejecutar entradas s1 = Inr s'" "invariante (Suc n + length entradas) s'" by blast
  with 1 e show ?case by simp
qed

subsection \<open>Bounds of the plant state\<close>

text \<open>
  Claim C1. A constructed system is run through any sequence of ticks, each with any
  disturbance and any optional new target. The run returns a state, \<^verbatim>\<open>velocidad_min\<close> and
  \<^verbatim>\<open>velocidad_max\<close> are still 50 and 100 there, and \<^verbatim>\<open>velocidad_actual\<close> lies between them.
  Every prefix of a run is a run, so this holds after each call of \<^verbatim>\<open>actualizar_sistema\<close>.
\<close>

theorem velocidad_actual_en_limites:
  "\<exists>s. ejecutar entradas SistemaControlMotor_init = Inr s
        \<and> velocidad_min s = 50 \<and> velocidad_max s = 100
        \<and> velocidad_min s \<le> velocidad_actual s \<and> velocidad_actual s \<le> velocidad_max s"
proof -
  from invariante_ejecutar[OF invariante_init, of entradas] obtain s where
    "ejecutar entradas SistemaControlMotor_init = Inr s"
    "invariante (0 + length entradas) s" by blast
  then show ?thesis
    by (simp add: invariante_def configuracion_nominal_def)
qed

text \<open>
  Claim C2. After any sequence of ticks of a constructed system, with any disturbances and
  targets, \<^verbatim>\<open>rpm_ctrl\<close> and \<^verbatim>\<open>rpm_reales\<close> both lie in the interval from 4700 to 6300.
\<close>

theorem rpm_en_limites:
  "\<exists>s. ejecutar entradas SistemaControlMotor_init = Inr s
        \<and> 4700 \<le> rpm_ctrl s \<and> rpm_ctrl s \<le> 6300
        \<and> 4700 \<le> rpm_reales s \<and> rpm_reales s \<le> 6300"
proof -
  from invariante_ejecutar[OF invariante_init, of entradas] obtain s where
    "ejecutar entradas SistemaControlMotor_init = Inr s"
    "invariante (0 + length entradas) s" by blast
  then show ?thesis
    by (simp add: invariante_def)
qed

text \<open>
  Claim C3. The constructor leaves \<^verbatim>\<open>integral\<close> at 0, and after any sequence of ticks the
  magnitude of \<^verbatim>\<open>integral\<close> is at most 2. The step that updates it, on any state, clamps
  the accumulator to the interval from -2 to 2 after adding to it when the tick is eligible,
  and multiplies it by 0.9 otherwise.
\<close>

theorem integral_acotada:
  "integral SistemaControlMotor_init = 0
   \<and> (\<exists>s. ejecutar entradas SistemaControlMotor_init = Inr s \<and> \<bar>integral s\<bar> \<le> 2)
   \<and> integral (integral_limitada e s0)
       = (if esta_en_rango_objetivo s0 \<and> \<bar>e\<bar> < 1.0
          then clip (integral s0 + e * dt s0 * 0.02) (- 2) 2
          else integral s0 * 0.9)"
proof -
  from invariante_ejecutar[OF invariante_init, of entradas] obtain s where
    "ejecutar entradas SistemaControlMotor_init = Inr s"
    "invariante (0 + length entradas) s" by blast
  then have "\<exists>s. ejecutar entradas SistemaControlMotor_init = Inr s \<and> \<bar>integral s\<bar> \<le> 2"
    by (auto simp: invariante_def)
  moreover have "integral SistemaControlMotor_init = 0"
    by (simp add: init_defs)
  moreover have "integral (integral_limitada e s0)
       = (if esta_en_rango_objetivo s0 \<and> \<bar>e\<bar> < 1.0
          then clip (integral s0 + e * dt s0 * 0.02) (- 2) 2
          else integral s0 * 0.9)"
    by (simp add: integral_limitada_def Let_def)
  ultimately show ?thesis by blast
qed

subsection \<open>The control law\<close>

text \<open>
  Claim C4. Whenever the two unguarded divisions of the method are defined, the method
  returns, and the proportional term it returns is the one the specification describes:
  gain \<^verbatim>\<open>Kp * 1.5\<close> on \<^verbatim>\<open>velocidad_nominal - velocidad_actual\<close> above the band, gain
  \<^verbatim>\<open>Kp * 1.3\<close> on the same error below the band, and inside the band gain \<^verbatim>\<open>Kp\<close> on the
  converted input error, multiplied by 0.7 when the speed is more than 0.3 away from the
  target.
\<close>

theorem proporcional_planificado:
  assumes "vss_volt_max s \<noteq> vss_volt_min s"
    and "dt s \<noteq> 0 \<or> deque_len (historial_salida s) < 2"
  shows "\<exists>error_kmh_v s' control I D accion.
           error_volts_a_kmh s ev = Inr error_kmh_v
           \<and> calcular_control_proporcional_inteligente ev s
               = Inr (s', control, proporcional_segun_spec s error_kmh_v, I, D, accion)"
proof -
  note e = error_volts_a_kmh_Inr[OF assms(1), of ev]
  from assms(2) have "dt s \<noteq> 0 \<or> deque_len (historial_salida s) < 2
       \<or> velocidad_actual_numpy s \<or> velocidad_anterior_numpy s" by blast
  from calcular_Inr[OF assms(1) this, of ev] e show ?thesis
    by auto
qed

text \<open>
  The hypotheses hold of the constructed system; for an input error of 1 V, that is 10 km/h,
  at 70 km/h below the band, the proportional term is \<open>4 * 1.3 * 10 = 52\<close>.
\<close>

theorem proporcional_planificado_witness:
  "vss_volt_max SistemaControlMotor_init \<noteq> vss_volt_min SistemaControlMotor_init
   \<and> dt SistemaControlMotor_init \<noteq> 0
   \<and> (\<exists>s' control I D accion.
         calcular_control_proporcional_inteligente 1 SistemaControlMotor_init
           = Inr (s', control, 52, I, D, accion))"
proof -
  have h1: "vss_volt_max SistemaControlMotor_init \<noteq> vss_volt_min SistemaControlMotor_init"
    by (simp add: init_defs)
  have h3: "dt SistemaControlMotor_init \<noteq> 0"
    by (simp add: init_defs)
  then have h2: "dt SistemaControlMotor_init \<noteq> 0 \<or> deque_len (historial_salida SistemaControlMotor_init) < 2"
    by simp
  have e: "error_volts_a_kmh SistemaControlMotor_init 1 = Inr 10"
    by (simp add: error_volts_a_kmh_def divide_py_def init_defs)
  have p: "proporcional_segun_spec SistemaControlMotor_init 10 = 52"
    by (simp add: proporcional_segun_spec_def init_defs)
  from proporcional_planificado[OF h1 h2, of 1] e p h1 h3 show ?thesis
    by auto
qed

text \<open>
  Claim C5, as amended. Whenever the two unguarded divisions of the method are defined, the
  method returns a finite command, and that command is the sum \<^verbatim>\<open>P + I + D + accion_correctiva\<close>
  clamped to the range of the zone: from -30 to 5 when \<^verbatim>\<open>velocidad_actual\<close> is above
  \<^verbatim>\<open>rango_max + 0.2\<close> (the positive side is tight, the negative side is wide), from -5 to 20
  when it is below \<^verbatim>\<open>rango_min - 0.2\<close> (the negative side is tight), and from -25 to 25
  otherwise. The sum is taken on \<open>flotante\<close>, as the corrective action is one.
\<close>

theorem saturacion_por_zona:
  assumes "vss_volt_max s \<noteq> vss_volt_min s"
    and "dt s \<noteq> 0 \<or> deque_len (historial_salida s) < 2"
  shows "\<exists>s' control P I D accion.
           calcular_control_proporcional_inteligente ev s
             = Inr (s', Finito control, P, I, D, accion)
           \<and> Finito control = clip_flotante (suma (Finito (P + I + D)) accion)
                                  (fst (rango_saturacion s)) (snd (rango_saturacion s))
           \<and> fst (rango_saturacion s) \<le> control \<and> control \<le> snd (rango_saturacion s)"
proof -
  from assms(2) have "dt s \<noteq> 0 \<or> deque_len (historial_salida s) < 2
       \<or> velocidad_actual_numpy s \<or> velocidad_anterior_numpy s" by blast
  from calcular_Inr[OF assms(1) this, of ev] show ?thesis
    by blast
qed

text \<open>
  The hypotheses of the previous theorem hold of the constructed system, which is in the
  bottom zone: its command for an input error of 1 V lies between -5 and 20.
\<close>

theorem saturacion_por_zona_witness:
  "vss_volt_max SistemaControlMotor_init \<noteq> vss_volt_min SistemaControlMotor_init
   \<and> dt SistemaControlMotor_init \<noteq> 0
   \<and> rango_saturacion SistemaControlMotor_init = (- 5, 20)
   \<and> (\<exists>s' control P I D accion.
         calcular_control_proporcional_inteligente 1 SistemaControlMotor_init
           = Inr (s', Finito control, P, I, D, accion)
         \<and> - 5 \<le> control \<and> control \<le> 20)"
proof -
  have h1: "vss_volt_max SistemaControlMotor_init \<noteq> vss_volt_min SistemaControlMotor_init"
    by (simp add: init_defs)
  have h3: "dt SistemaControlMotor_init \<noteq> 0"
    by (simp add: init_defs)
  then have h2: "dt SistemaControlMotor_init \<noteq> 0 \<or> deque_len (historial_salida SistemaControlMotor_init) < 2"
    by simp
  have r: "rango_saturacion SistemaControlMotor_init = (- 5, 20)"
    by (simp add: rango_saturacion_def init_defs)
  from saturacion_por_zona[OF h1 h2, of 1] obtain s' control P I D accion where
    c: "calcular_control_proporcional_inteligente 1 SistemaControlMotor_init
          = Inr (s', Finito control, P, I, D, accion)"
    and "fst (rango_saturacion SistemaControlMotor_init) \<le> control"
    and "control \<le> snd (rango_saturacion SistemaControlMotor_init)"
    by blast
  with r have "- 5 \<le> control" "control \<le> 20" by simp_all
  with c r h1 h3 show ?thesis by blast
qed

text \<open>
  Claim C5 as stated speaks of a tight negative allowance above the top edge. With the
  target lowered to 60 the constructed system, at 70, is above \<^verbatim>\<open>rango_max + 0.2\<close>. The
  input error of the tick is then -1 V, and the command returned is -30: more negative than
  the bound -25 of the normal zone.
\<close>

theorem saturacion_por_zona_counterexample:
  "velocidad_actual (SistemaControlMotor_init\<lparr>velocidad_nominal := 60\<rparr>)
     > snd (get_rango_objetivo (SistemaControlMotor_init\<lparr>velocidad_nominal := 60\<rparr>)) + 0.2
   \<and> map_sum id (fst \<circ> snd)
        (calcular_control_proporcional_inteligente (- 1)
           (SistemaControlMotor_init\<lparr>velocidad_nominal := 60\<rparr>)) = Inr (Finito (- 30))"
  by (simp add: calcular_control_proporcional_inteligente_def error_volts_a_kmh_def divide_py_def
        calcular_tendencia_def deque_len_def proporcional_adaptativo_def integral_limitada_def
        derivativo_suavizado_def accion_correctiva_instantanea_def limitacion_inteligente_def
        clip_def init_defs)

text \<open>
  Claim C8. The division of the derivative term is the partial one, and the guard of the
  source keeps it defined: on every state, whatever \<^verbatim>\<open>dt\<close> is, step 4 yields a value and
  never an error, and the value is 0 when \<^verbatim>\<open>dt\<close> is zero or negative. In the method:
  whenever the error conversion and the trend estimate do not raise, the method returns,
  and the \<^verbatim>\<open>D\<close> it returns is 0 when \<^verbatim>\<open>dt\<close> is zero or negative. The trend estimate does not
  raise when \<^verbatim>\<open>dt\<close> is not zero, when it is skipped, or when its numerator is a numpy
  \<^verbatim>\<open>float64\<close>, as it is after any tick.
\<close>

theorem derivativo_protegido:
  "(\<exists>d. derivativo_suavizado s error_kmh_v = Inr d)
   \<and> (dt s \<le> 0 \<longrightarrow> derivativo_suavizado s error_kmh_v = Inr 0)
   \<and> (vss_volt_max s \<noteq> vss_volt_min s \<longrightarrow>
        (dt s \<noteq> 0 \<or> deque_len (historial_salida s) < 2
           \<or> velocidad_actual_numpy s \<or> velocidad_anterior_numpy s) \<longrightarrow>
        (\<exists>s' control P I D accion.
            calcular_control_proporcional_inteligente ev s = Inr (s', control, P, I, D, accion)
            \<and> (dt s \<le> 0 \<longrightarrow> D = 0)))"
proof (intro conjI impI)
  show "\<exists>d. derivativo_suavizado s error_kmh_v = Inr d"
    by (simp add: derivativo_suavizado_Inr)
next
  assume "dt s \<le> 0"
  then show "derivativo_suavizado s error_kmh_v = Inr 0"
    by (simp add: derivativo_suavizado_Inr)
next
  assume v: "vss_volt_max s \<noteq> vss_volt_min s"
    and d: "dt s \<noteq> 0 \<or> deque_len (historial_salida s) < 2
           \<or> velocidad_actual_numpy s \<or> velocidad_anterior_numpy s"
  from calcular_Inr[OF v d, of ev]
  show "\<exists>s' control P I D accion.
            calcular_control_proporcional_inteligente ev s = Inr (s', control, P, I, D, accion)
            \<and> (dt s \<le> 0 \<longrightarrow> D = 0)"
    by blast
qed

text \<open>
  The state after one tick of the constructed system, with \<^verbatim>\<open>dt\<close> then set to 0: its
  history holds more than two samples and its \<^verbatim>\<open>velocidad_actual\<close> is a numpy \<^verbatim>\<open>float64\<close>, so
  the trend estimate divides by zero without raising. The derivative step yields 0 and the
  method returns with \<^verbatim>\<open>D = 0\<close>.
\<close>

theorem derivativo_protegido_witness:
  "\<exists>s. actualizar_sistema 0 None SistemaControlMotor_init = Inr s
        \<and> 2 \<le> deque_len (historial_salida (s\<lparr>dt := 0\<rparr>))
        \<and> dt (s\<lparr>dt := 0\<rparr>) \<le> 0
        \<and> vss_volt_max (s\<lparr>dt := 0\<rparr>) \<noteq> vss_volt_min (s\<lparr>dt := 0\<rparr>)
        \<and> velocidad_actual_numpy (s\<lparr>dt := 0\<rparr>)
        \<and> derivativo_suavizado (s\<lparr>dt := 0\<rparr>) 1 = Inr 0
        \<and> (\<exists>s' control P I accion.
              calcular_control_proporcional_inteligente 1 (s\<lparr>dt := 0\<rparr>)
                = Inr (s', control, P, I, 0, accion))"
proof -
  from invariante_paso[OF invariante_init, of 0 None] obtain s where
    t: "actualizar_sistema 0 None SistemaControlMotor_init = Inr s"
    and inv: "invariante (Suc 0) s" and np: "velocidad_actual_numpy s" by blast
  define z where "z = s\<lparr>dt := 0\<rparr>"
  from inv have "longitudes s = replicate 15 (min (5 + Suc 0) 150)"
    by (simp add: invariante_def)
  then have len: "2 \<le> deque_len (historial_salida z)"
    by (simp add: longitudes_def eval_nat_numeral z_def)
  from inv have v: "vss_volt_max z \<noteq> vss_volt_min z"
    by (simp add: invariante_def configuracion_nominal_def z_def)
  from np have npz: "velocidad_actual_numpy z" by (simp add: z_def)
  have d0: "dt z \<le> 0" by (simp add: z_def)
  from derivativo_protegido[of z 1 1] d0 v npz
  have "derivativo_suavizado z 1 = Inr 0"
    and "\<exists>s' control P I accion.
           calcular_control_proporcional_inteligente 1 z = Inr (s', control, P, I, 0, accion)"
    by auto
  with t len d0 v npz show ?thesis
    unfolding z_def by blast
qed

subsection \<open>Disturbance shaping and unit conversion\<close>

text \<open>
  Claim C6, as amended. The clamping stage of the disturbance shaping is idempotent: a raw
  disturbance that has already been clamped to the interval from -100 to 200 is shaped like
  the raw disturbance itself. The shaping as a whole is not idempotent: with the attenuation
  factor 0.3, shaping twice gives the result of shaping once only for the raw input 0.
\<close>

theorem recorte_idempotente:
  "aplicar_perturbacion_atenuada s (clip x (- 100) 200) = aplicar_perturbacion_atenuada s x
   \<and> (factor_atenuacion_perturbacion s = 0.3 \<longrightarrow>
        (aplicar_perturbacion_atenuada s (aplicar_perturbacion_atenuada s x)
           = aplicar_perturbacion_atenuada s x \<longleftrightarrow> x = 0))"
  by (auto simp: aplicar_perturbacion_atenuada_def clip_def Let_def min_def max_def)

text \<open>
  The constructed system has the attenuation factor 0.3; the raw inputs 500 and 0 instantiate
  the two parts of the previous theorem.
\<close>

theorem recorte_idempotente_witness:
  "factor_atenuacion_perturbacion SistemaControlMotor_init = 0.3
   \<and> aplicar_perturbacion_atenuada SistemaControlMotor_init (clip 500 (- 100) 200)
       = aplicar_perturbacion_atenuada SistemaControlMotor_init 500
   \<and> aplicar_perturbacion_atenuada SistemaControlMotor_init
       (aplicar_perturbacion_atenuada SistemaControlMotor_init 0)
       = aplicar_perturbacion_atenuada SistemaControlMotor_init 0"
proof -
  have f: "factor_atenuacion_perturbacion SistemaControlMotor_init = 0.3"
    by (simp add: init_defs)
  from recorte_idempotente[of SistemaControlMotor_init 500]
       recorte_idempotente[of SistemaControlMotor_init 0] f
  show ?thesis by simp
qed

text \<open>
  Claim C6 as stated fails at the raw input 200: shaping once gives 60, shaping the result
  again gives 18.
\<close>

theorem perturbacion_atenuada_idempotente_counterexample:
  "aplicar_perturbacion_atenuada SistemaControlMotor_init
     (aplicar_perturbacion_atenuada SistemaControlMotor_init 200)
   \<noteq> aplicar_perturbacion_atenuada SistemaControlMotor_init 200"
  by (simp add: aplicar_perturbacion_atenuada_def clip_def init_defs)

text \<open>
  Claim C7. For a sensor range and a voltage range of positive width, and every speed inside
  the sensor range, converting the speed to a voltage and back recovers the speed exactly.
  The constructor sets the sensor range to the interval from 50 to 100 and the voltage range
  to the interval from 0 to 5.
\<close>

theorem ida_y_vuelta_velocidad:
  assumes "vss_vel_min s < vss_vel_max s" and "vss_volt_min s < vss_volt_max s"
    and "vss_vel_min s \<le> v" and "v \<le> vss_vel_max s"
  shows "voltaje_a_velocidad s (velocidad_a_voltaje s v) = v"
proof -
  define a b c d where "a = vss_vel_min s" and "b = vss_vel_max s"
    and "c = vss_volt_min s" and "d = vss_volt_max s"
  define q where "q = (v - a) / (b - a)"
  from assms have ab: "a < b" and cd: "c < d" and av: "a \<le> v" and vb: "v \<le> b"
    by (simp_all add: a_def b_def c_def d_def)
  from ab av have q0: "0 \<le> q" by (simp add: q_def)
  from ab vb have q1: "q \<le> 1" by (simp add: q_def)
  from q0 cd have lo: "c \<le> q * (d - c) + c" by simp
  from q1 cd have "q * (d - c) \<le> 1 * (d - c)"
    by (intro mult_right_mono) simp_all
  then have hi: "q * (d - c) + c \<le> d" by simp
  from lo hi have cl: "clip (q * (d - c) + c) c d = q * (d - c) + c"
    by (simp add: clip_def)
  from ab have 1: "velocidad_a_voltaje s v = q * (d - c) + c"
    using cl by (simp add: velocidad_a_voltaje_def a_def b_def c_def d_def q_def)
  from cd have 2: "voltaje_a_velocidad s (q * (d - c) + c) = q * (b - a) + a"
    by (simp add: voltaje_a_velocidad_def a_def b_def c_def d_def)
  from ab have "q * (b - a) + a = v" by (simp add: q_def)
  with 1 2 show ?thesis by simp
qed

text \<open>
  The ranges of the constructed system satisfy the hypotheses; 73 km/h makes the round trip.
\<close>

theorem ida_y_vuelta_velocidad_witness:
  "vss_vel_min SistemaControlMotor_init = 50 \<and> vss_vel_max SistemaControlMotor_init = 100
   \<and> vss_volt_min SistemaControlMotor_init < vss_volt_max SistemaControlMotor_init
   \<and> voltaje_a_velocidad SistemaControlMotor_init
        (velocidad_a_voltaje SistemaControlMotor_init 73) = 73"
proof -
  have h: "vss_vel_min SistemaControlMotor_init = 50" "vss_vel_max SistemaControlMotor_init = 100"
    "vss_volt_min SistemaControlMotor_init < vss_volt_max SistemaControlMotor_init"
    by (simp_all add: init_defs)
  from ida_y_vuelta_velocidad[of SistemaControlMotor_init 73] h show ?thesis
    by simp
qed

subsection \<open>Construction and histories\<close>

text \<open>
  Claim C9, as amended. The constructor takes no \<^verbatim>\<open>dt\<close>: it sets \<^verbatim>\<open>dt\<close> to 0.1 and raises
  nothing. No tick assigns \<^verbatim>\<open>dt\<close>, so every run of a constructed system returns a state
  whose \<^verbatim>\<open>dt\<close> is still 0.1, and no division by zero occurs.
\<close>

theorem dt_fijado_por_constructor:
  "dt SistemaControlMotor_init = 0.1
   \<and> (\<exists>s. ejecutar entradas SistemaControlMotor_init = Inr s \<and> dt s = 0.1)"
proof -
  from invariante_ejecutar[OF invariante_init, of entradas] obtain s where
    "ejecutar entradas SistemaControlMotor_init = Inr s"
    "invariante (0 + length entradas) s" by blast
  then have "\<exists>s. ejecutar entradas SistemaControlMotor_init = Inr s \<and> dt s = 0.1"
    by (auto simp: invariante_def configuracion_nominal_def)
  moreover have "dt SistemaControlMotor_init = 0.1"
    by (simp add: init_defs)
  ultimately show ?thesis by simp
qed

text \<open>
  Claim C9 as stated asks for a rejection at construction time. Nothing checks \<^verbatim>\<open>dt\<close>: a
  freshly constructed system whose \<^verbatim>\<open>dt\<close> attribute is set to 0 is accepted, and its first
  tick fails with the division by zero of the trend estimate.
\<close>

theorem dt_no_validado_counterexample:
  "actualizar_sistema 0 None (SistemaControlMotor_init\<lparr>dt := 0\<rparr>) = Inl ZeroDivisionError"
  by (simp add: actualizar_sistema_def calcular_control_proporcional_inteligente_def
        error_volts_a_kmh_def divide_py_def calcular_tendencia_def deque_len_def
        velocidad_a_voltaje_def clip_def init_defs)

text \<open>
  Claim C10. After any sequence of ticks of a constructed system, each of the fifteen
  history deques has the bound 150 and holds five samples more than the number of ticks,
  capped at 150. So \<^verbatim>\<open>historial_salida\<close> holds between 5 and 150 samples, the guard of the
  trend estimate is passed, and the next tick, whatever its inputs, returns with
  \<^verbatim>\<open>tendencia\<close> recomputed from the speeds and \<^verbatim>\<open>dt\<close> at its start.
\<close>

theorem historiales_y_tendencia:
  "\<exists>s. ejecutar entradas SistemaControlMotor_init = Inr s
        \<and> capacidades s = replicate 15 150
        \<and> longitudes s = replicate 15 (min (5 + length entradas) 150)
        \<and> 5 \<le> deque_len (historial_salida s) \<and> deque_len (historial_salida s) \<le> 150
        \<and> (\<forall>p v. \<exists>s'. actualizar_sistema p v s = Inr s'
               \<and> tendencia s' = Finito ((velocidad_actual s - velocidad_anterior s) / dt s))"
proof -
  from invariante_ejecutar[OF invariante_init, of entradas] obtain s where
    e: "ejecutar entradas SistemaControlMotor_init = Inr s"
    and inv: "invariante (0 + length entradas) s" by blast
  from inv have cap: "capacidades s = replicate 15 150"
    and lon: "longitudes s = replicate 15 (min (5 + length entradas) 150)"
    by (simp_all add: invariante_def)
  from lon have sal: "deque_len (historial_salida s) = min (5 + length entradas) 150"
    by (simp add: longitudes_def eval_nat_numeral)
  have paso: "\<forall>p v. \<exists>s'. actualizar_sistema p v s = Inr s'
               \<and> tendencia s' = Finito ((velocidad_actual s - velocidad_anterior s) / dt s)"
    using invariante_paso[OF inv] by blast
  from e cap lon sal paso show ?thesis by simp
qed

end
